theory Spec2Isabelle
  imports Main "HOL-Library.Word"
begin

section \<open>Data model of fastboot/task.cpp\<close>

text \<open>
  A \<open>unique_fd\<close> wraps an \<open>int\<close>; a negative value is a file that could
  not be opened (\<open>fd < 0\<close> in the source).
\<close>

type_synonym fd = int

text \<open>
  Modelled from the spec: \<open>struct Image\<close> and \<open>ImageEntry\<close> are declared in
  fastboot.h, which is not among the sources. \<open>img_name\<close> and \<open>optional_if_no_image\<close>
  are the members task.cpp reads; \<open>part_name\<close> is the logical base partition name the
  spec gives every image descriptor. An \<open>ImageEntry\<close> is a \<open>std::pair\<close> of an
  image and a slot string, read with \<open>entry.first\<close>.
\<close>

record Image =
  img_name :: string
  part_name :: string
  optional_if_no_image :: bool

type_synonym ImageEntry = "Image \<times> string"

text \<open>
  Every call of task.cpp that acts on the device is recorded as an event, in the order in
  which it is made. The calls \<open>fp->fb->X(...)\<close> of the \<open>FastBootDriver\<close> discard
  the return code in the source, so they are events and nothing else. \<open>'sp\<close> is the type
  of a sparse file (\<open>SparsePtr\<close>).
\<close>

datatype 'sp event =
    DoFlash string string bool
  | RebootToUserspaceFastboot
  | RebootTo string
  | Reboot
  | WaitForDisconnect
  | FlashPartition string 'sp
  | Download string fd int
  | RawCommand string string
  | ResizePartition string string
  | Erase string
  | FbPerformFormat string int string string "32 word"

text \<open>
  Modelled from the spec: \<open>die\<close> and \<open>syntax_error\<close> are defined outside task.cpp.
  The spec has both end the session (a fatal failure with a remediation message, a fatal
  usage error), so a call of either is an \<open>Aborted\<close> outcome carrying the formatted
  message and the events issued before it.
\<close>

datatype error = Die string | SyntaxError string

datatype 'sp outcome =
    Completed "'sp event list"
  | Aborted error "'sp event list"

text \<open>
  The collaborators task.cpp calls and does not define: the helpers of fastboot.cpp, the
  queries of the device session, libsparse. Each is a parameter. A query of the device may
  answer differently after a command, so every query takes the events issued so far.
  \<open>GetVar\<close> is \<open>Some v\<close> when the driver returns \<open>SUCCESS\<close> and stores \<open>v\<close>,
  and \<open>None\<close> for every other return code. \<open>get_sparse_limit\<close> is the value the
  source stores in \<open>int limit\<close>. \<open>partitions_for\<close> lists the concrete partitions
  for which \<open>do_for_partitions\<close> invokes its callback.
\<close>

record 'sp world =
  should_flash_in_userspace :: "'sp event list \<Rightarrow> string \<Rightarrow> bool"
  is_userspace_fastboot :: "'sp event list \<Rightarrow> bool"
  is_logical :: "'sp event list \<Rightarrow> string \<Rightarrow> bool"
  supports_AB :: "'sp event list \<Rightarrow> bool"
  partitions_for :: "'sp event list \<Rightarrow> string \<Rightarrow> string \<Rightarrow> bool \<Rightarrow> string list"
  GetVar :: "'sp event list \<Rightarrow> string \<Rightarrow> string option"
  get_sparse_limit :: "'sp event list \<Rightarrow> int \<Rightarrow> int"
  sparse_file_len :: "'sp \<Rightarrow> bool \<Rightarrow> bool \<Rightarrow> int"
  resparse_file :: "'sp \<Rightarrow> int \<Rightarrow> 'sp list"
  get_file_size :: "fd \<Rightarrow> int"
  GetPartitionName :: "ImageEntry \<Rightarrow> string \<Rightarrow> string"

record ImageSource =
  OpenFile :: "string \<Rightarrow> fd"

text \<open>
  The members of \<open>FlashingPlan\<close> that task.cpp reads. The driver \<open>fp->fb\<close> is the
  one device session of the plan: its commands are the events above and its queries are in
  the \<open>world\<close>.
\<close>

record FlashingPlan =
  fs_options :: "32 word"
  source :: ImageSource
  wants_wipe :: bool
  slot :: string
  current_slot :: string

text \<open>
  \<open>SuperFlashHelper\<close> is a stateful object defined in super_flash_helper.cpp; \<open>'h\<close>
  is its state. A method that returns \<open>false\<close> or a null layout is \<open>None\<close>; one
  that succeeds gives the state it leaves behind. \<open>WillFlash\<close> is a query.
\<close>

record ('h, 'sp) SuperFlashHelper =
  make_helper :: "ImageSource \<Rightarrow> 'h"
  Open :: "'h \<Rightarrow> fd \<Rightarrow> 'h option"
  AddPartition :: "'h \<Rightarrow> string \<Rightarrow> string \<Rightarrow> bool \<Rightarrow> 'h option"
  GetSparseLayout :: "'h \<Rightarrow> ('sp \<times> 'h) option"
  WillFlash :: "'h \<Rightarrow> string \<Rightarrow> bool"

section \<open>Helpers reached through callbacks\<close>

text \<open>
  Modelled from the spec: \<open>do_for_partitions\<close> is defined in fastboot.cpp, not in the
  sources. The spec's resolver maps a partition name and a slot specifier to the ordered
  concrete partition names and invokes the callback on each; it performs no device I/O of
  its own. A callback that aborts ends the run.
\<close>

fun for_each_partition ::
  "(string \<Rightarrow> 'sp event list \<Rightarrow> 'sp outcome) \<Rightarrow> string list \<Rightarrow> 'sp event list \<Rightarrow> 'sp outcome" where
  "for_each_partition func [] tr = Completed tr"
| "for_each_partition func (p # ps) tr =
     (case func p tr of
        Completed tr' \<Rightarrow> for_each_partition func ps tr'
      | Aborted e tr' \<Rightarrow> Aborted e tr')"

definition do_for_partitions ::
  "'sp world \<Rightarrow> string \<Rightarrow> string \<Rightarrow> (string \<Rightarrow> 'sp event list \<Rightarrow> 'sp outcome) \<Rightarrow> bool
     \<Rightarrow> 'sp event list \<Rightarrow> 'sp outcome" where
  "do_for_partitions w part slt func force_slot tr =
     for_each_partition func (partitions_for w tr part slt force_slot) tr"

section \<open>FlashTask\<close>

record FlashTask =
  flash_pname :: string
  flash_fname :: string
  flash_slot :: string
  flash_apply_vbmeta :: bool

definition dynamic_flash_message :: string where
  "dynamic_flash_message =
     ''The partition you are trying to flash is dynamic, and ''
     @ ''should be flashed via fastbootd. Please run:'' @ [CHR 0x0A]
     @ [CHR 0x0A]
     @ ''    fastboot reboot fastboot'' @ [CHR 0x0A]
     @ [CHR 0x0A]
     @ ''And try again. If you are intentionally trying to ''
     @ ''overwrite a fixed partition, use --force.''"

text \<open>The lambda \<open>flash\<close> of FlashTask::Run.\<close>

definition FlashTask_flash ::
  "'sp world \<Rightarrow> FlashTask \<Rightarrow> string \<Rightarrow> 'sp event list \<Rightarrow> 'sp outcome" where
  "FlashTask_flash w t part tr =
     (if should_flash_in_userspace w tr part \<and> \<not> is_userspace_fastboot w tr
      then Aborted (Die dynamic_flash_message) tr
      else Completed (tr @ [DoFlash part (flash_fname t) (flash_apply_vbmeta t)]))"

definition FlashTask_Run :: "'sp world \<Rightarrow> FlashTask \<Rightarrow> 'sp event list \<Rightarrow> 'sp outcome" where
  "FlashTask_Run w t tr =
     do_for_partitions w (flash_pname t) (flash_slot t) (FlashTask_flash w t) True tr"

section \<open>RebootTask\<close>

record RebootTask =
  reboot_target :: string

definition RebootTask_Run :: "'sp world \<Rightarrow> RebootTask \<Rightarrow> 'sp event list \<Rightarrow> 'sp outcome" where
  "RebootTask_Run w t tr =
     (if reboot_target t = ''userspace'' \<or> reboot_target t = ''fastboot'' then
        (if \<not> is_userspace_fastboot w tr
         then Completed (tr @ [RebootToUserspaceFastboot, WaitForDisconnect])
         else Completed tr)
      else if reboot_target t = ''recovery'' then
        Completed (tr @ [RebootTo ''recovery'', WaitForDisconnect])
      else if reboot_target t = ''bootloader'' then
        Completed (tr @ [RebootTo ''bootloader'', WaitForDisconnect])
      else if reboot_target t = '''' then
        Completed (tr @ [Reboot, WaitForDisconnect])
      else Aborted (SyntaxError (''unknown reboot target '' @ reboot_target t)) tr)"

section \<open>FlashSuperLayoutTask\<close>

record ('h, 'sp) FlashSuperLayoutTask =
  super_name :: string
  helper :: 'h
  sparse_layout :: 'sp

text \<open>
  Modelled from the spec: \<open>flash_partition_files\<close> is defined in fastboot.cpp, not in
  the sources. The spec has it transfer the chunks to the device, addressed to the given
  partition name, strictly in the order of the sequence: one transfer per chunk.
\<close>

definition flash_partition_files :: "string \<Rightarrow> 'sp list \<Rightarrow> 'sp event list \<Rightarrow> 'sp event list" where
  "flash_partition_files part files tr = tr @ map (FlashPartition part) files"

definition FlashSuperLayoutTask_Run ::
  "'sp world \<Rightarrow> ('h, 'sp) FlashSuperLayoutTask \<Rightarrow> 'sp event list \<Rightarrow> 'sp outcome" where
  "FlashSuperLayoutTask_Run w t tr =
     (let limit = get_sparse_limit w tr (sparse_file_len w (sparse_layout t) False False);
          files = (if limit \<noteq> 0 then resparse_file w (sparse_layout t) limit
                   else [sparse_layout t])
      in Completed (flash_partition_files (super_name t) files tr))"

text \<open>
  Modelled from the spec: \<open>get_sparse_limit\<close> (fastboot.cpp) and \<open>resparse_file\<close>
  (libsparse) are not in the sources; the spec gives their contracts. The layout's size is
  compared with the transport's maximum single-transfer payload: a layout over it gets a
  chunk bound at or under it, any other layout is not split (the bound is 0). Splitting
  yields chunks each at or under the bound it is given; the size of a chunk is its length
  in sparse encoding, which is what a transfer sends.
\<close>

definition limit_within_payload :: "'sp world \<Rightarrow> 'sp event list \<Rightarrow> int \<Rightarrow> int \<Rightarrow> bool" where
  "limit_within_payload w tr max_payload len =
     (let limit = get_sparse_limit w tr len
      in if len > max_payload then 0 < limit \<and> limit \<le> max_payload else limit = 0)"

definition chunks_within :: "'sp world \<Rightarrow> 'sp \<Rightarrow> int \<Rightarrow> bool" where
  "chunks_within w s limit =
     (\<forall>c \<in> set (resparse_file w s limit). sparse_file_len w c True False \<le> limit)"

text \<open>\<open>os_images.erase(std::remove_if(begin, end, pred), end)\<close> on a vector.\<close>

primrec erase_remove_if :: "('a \<Rightarrow> bool) \<Rightarrow> 'a list \<Rightarrow> 'a list" where
  "erase_remove_if pred [] = []"
| "erase_remove_if pred (x # xs) =
     (if pred x then erase_remove_if pred xs else x # erase_remove_if pred xs)"

text \<open>The loop of Initialize that registers every candidate image with the helper.\<close>

fun add_partitions ::
  "('h, 'sp) SuperFlashHelper \<Rightarrow> 'sp world \<Rightarrow> FlashingPlan \<Rightarrow> ImageEntry list \<Rightarrow> 'h \<Rightarrow> 'h option" where
  "add_partitions H w fp [] h = Some h"
| "add_partitions H w fp (entry # rest) h =
     (let part = GetPartitionName w entry (current_slot fp);
          image = fst entry
      in case AddPartition H h part (img_name image) (optional_if_no_image image) of
           None \<Rightarrow> None
         | Some h' \<Rightarrow> add_partitions H w fp rest h')"

text \<open>
  Initialize returns the task, or \<open>None\<close> for \<open>nullptr\<close>, together with the
  caller's vector \<open>os_images\<close> as the call leaves it.
\<close>

definition Initialize ::
  "('h, 'sp) SuperFlashHelper \<Rightarrow> 'sp world \<Rightarrow> FlashingPlan \<Rightarrow> ImageEntry list \<Rightarrow> 'sp event list
     \<Rightarrow> ('h, 'sp) FlashSuperLayoutTask option \<times> ImageEntry list" where
  "Initialize H w fp os_images tr =
     (if \<not> supports_AB w tr then (None, os_images)
      else if slot fp = ''all'' then (None, os_images)
      else
        let fd = OpenFile (source fp) ''super_empty.img'' in
        if fd < 0 then (None, os_images)
        else
          let super_name = (case GetVar w tr ''super-partition-name'' of
                              Some v \<Rightarrow> v | None \<Rightarrow> ''super'') in
          case GetVar w tr (''partition-size:'' @ super_name) of
            None \<Rightarrow> (None, os_images)
          | Some partition_size_str \<Rightarrow>
              (case Open H (make_helper H (source fp)) fd of
                 None \<Rightarrow> (None, os_images)
               | Some h1 \<Rightarrow>
                   (case add_partitions H w fp os_images h1 of
                      None \<Rightarrow> (None, os_images)
                    | Some h2 \<Rightarrow>
                        (case GetSparseLayout H h2 of
                           None \<Rightarrow> (None, os_images)
                         | Some (s, h3) \<Rightarrow>
                             (Some \<lparr>super_name = super_name, helper = h3, sparse_layout = s\<rparr>,
                              erase_remove_if
                                (\<lambda>entry. WillFlash H h3 (GetPartitionName w entry (current_slot fp)))
                                os_images)))))"

section \<open>UpdateSuperTask\<close>

record UpdateSuperTask =
  update_fp :: FlashingPlan

definition UpdateSuperTask_Run ::
  "'sp world \<Rightarrow> UpdateSuperTask \<Rightarrow> 'sp event list \<Rightarrow> 'sp outcome" where
  "UpdateSuperTask_Run w t tr =
     (let fd = OpenFile (source (update_fp t)) ''super_empty.img'' in
      if fd < 0 then Completed tr
      else
        let tr1 = (if \<not> is_userspace_fastboot w tr then tr @ [RebootToUserspaceFastboot]
                   else tr);
            super_name = (case GetVar w tr1 ''super-partition-name'' of
                            Some v \<Rightarrow> v | None \<Rightarrow> ''super'');
            tr2 = tr1 @ [Download super_name fd (get_file_size w fd)];
            command = ''update-super:'' @ super_name;
            command = (if wants_wipe (update_fp t) then command @ '':wipe'' else command)
        in Completed (tr2 @ [RawCommand command ''Updating super partition'']))"

section \<open>ResizeTask\<close>

record ResizeTask =
  resize_fp :: FlashingPlan
  resize_pname :: string
  resize_size :: string
  resize_slot :: string

text \<open>The lambda \<open>resize_partition\<close> of ResizeTask::Run.\<close>

definition resize_partition ::
  "'sp world \<Rightarrow> ResizeTask \<Rightarrow> string \<Rightarrow> 'sp event list \<Rightarrow> 'sp outcome" where
  "resize_partition w t part tr =
     (if is_logical w tr part
      then Completed (tr @ [ResizePartition part (resize_size t)])
      else Completed tr)"

definition ResizeTask_Run :: "'sp world \<Rightarrow> ResizeTask \<Rightarrow> 'sp event list \<Rightarrow> 'sp outcome" where
  "ResizeTask_Run w t tr =
     do_for_partitions w (resize_pname t) (resize_slot t) (resize_partition w t) False tr"

text \<open>
  The resizes the spec asks of a run, for comparison with \<open>ResizeTask_Run\<close>: going
  through the resolved partitions in order, one resize command with the given size for
  each partition that is logical when its turn comes, and nothing for any other.
\<close>

fun expected_resizes ::
  "'sp world \<Rightarrow> string \<Rightarrow> string list \<Rightarrow> 'sp event list \<Rightarrow> 'sp event list" where
  "expected_resizes w sz [] tr = tr"
| "expected_resizes w sz (p # ps) tr =
     expected_resizes w sz ps (if is_logical w tr p then tr @ [ResizePartition p sz] else tr)"

section \<open>WipeTask\<close>

record WipeTask =
  wipe_fp :: FlashingPlan
  wipe_pname :: string

definition WipeTask_Run :: "'sp world \<Rightarrow> WipeTask \<Rightarrow> 'sp event list \<Rightarrow> 'sp outcome" where
  "WipeTask_Run w t tr =
     (case GetVar w tr (''partition-type:'' @ wipe_pname t) of
        None \<Rightarrow> Completed tr
      | Some partition_type \<Rightarrow>
          if partition_type = [] then Completed tr
          else Completed (tr @ [Erase (wipe_pname t),
                 FbPerformFormat (wipe_pname t) 1 partition_type '''' (fs_options (wipe_fp t))]))"

section \<open>A concrete device, plan and helper\<close>

text \<open>
  A device with slots a and b that starts in the bootloader and is in userspace fastboot
  once a reboot there has been commanded. \<open>system\<close> and \<open>vendor\<close> are its dynamic
  partitions. A sparse file is represented by its length in bytes; the transport takes
  100 bytes in one transfer.
\<close>

definition device :: "nat world" where
  "device =
     \<lparr> should_flash_in_userspace = (\<lambda>tr p. p = ''system_a'' \<or> p = ''vendor_a''),
       is_userspace_fastboot = (\<lambda>tr. RebootToUserspaceFastboot \<in> set tr),
       is_logical = (\<lambda>tr p. p = ''system_a'' \<or> p = ''vendor_a''),
       supports_AB = (\<lambda>tr. True),
       partitions_for = (\<lambda>tr part slt force_slot.
          if slt = ''all'' then [part @ ''_a'', part @ ''_b'']
          else if slt = '''' then [part @ ''_a'']
          else [part @ ''_'' @ slt]),
       GetVar = (\<lambda>tr key.
          if key = ''super-partition-name'' then Some ''super''
          else if key = ''partition-size:super'' then Some ''0x80000000''
          else if key = ''partition-type:userdata'' then Some ''ext4''
          else if key = ''partition-type:cache'' then Some ''''
          else None),
       get_sparse_limit = (\<lambda>tr len. if len > 100 then 100 else 0),
       sparse_file_len = (\<lambda>s sparse crc. int s),
       resparse_file = (\<lambda>s limit.
          if limit \<le> 0 then []
          else replicate (s div nat limit) (nat limit) @ [s mod nat limit]),
       get_file_size = (\<lambda>fd. 4096),
       GetPartitionName = (\<lambda>entry cur.
          let s = (if snd entry = '''' then cur else snd entry)
          in if s = '''' then part_name (fst entry) else part_name (fst entry) @ ''_'' @ s) \<rparr>"

definition images :: ImageSource where
  "images = \<lparr> OpenFile = (\<lambda>name. if name = ''super_empty.img'' then 3 else -1) \<rparr>"

definition plan :: FlashingPlan where
  "plan = \<lparr> fs_options = 0, source = images, wants_wipe = False,
            slot = ''a'', current_slot = ''a'' \<rparr>"

text \<open>
  A helper whose state is the list of partitions it will flash: it registers the dynamic
  partitions, refuses an image without a name unless the image is optional, and has a
  layout once a partition is registered.
\<close>

definition accumulator :: "(string list, nat) SuperFlashHelper" where
  "accumulator =
     \<lparr> make_helper = (\<lambda>src. []),
       Open = (\<lambda>h fd. if fd = 3 then Some h else None),
       AddPartition = (\<lambda>h part image_name optional.
          if image_name = '''' \<and> \<not> optional then None
          else if part = ''system_a'' \<or> part = ''vendor_a'' then Some (h @ [part])
          else Some h),
       GetSparseLayout = (\<lambda>h. if h = [] then None else Some (250 * length h, h)),
       WillFlash = (\<lambda>h name. name \<in> set h) \<rparr>"

definition system_img :: ImageEntry where
  "system_img = (\<lparr> img_name = ''system.img'', part_name = ''system'',
                   optional_if_no_image = False \<rparr>, '''')"

definition boot_img :: ImageEntry where
  "boot_img = (\<lparr> img_name = ''boot.img'', part_name = ''boot'',
                 optional_if_no_image = False \<rparr>, '''')"

definition vendor_img :: ImageEntry where
  "vendor_img = (\<lparr> img_name = ''vendor.img'', part_name = ''vendor'',
                   optional_if_no_image = False \<rparr>, '''')"

definition unnamed_img :: ImageEntry where
  "unnamed_img = (\<lparr> img_name = '''', part_name = ''product'',
                    optional_if_no_image = False \<rparr>, '''')"

section \<open>Properties\<close>

subsection \<open>Auxiliary facts\<close>

lemma erase_remove_if_filter: "erase_remove_if pred xs = filter (\<lambda>x. \<not> pred x) xs"
  by (induction xs) simp_all

text \<open>
  The callback of FlashTask::Run, for every device and every task: it refuses a dynamic
  partition outside userspace fastboot, and flashes with the task's file and vbmeta flag
  in every other case.
\<close>

lemma FlashTask_flash_refuses:
  "should_flash_in_userspace w tr p \<Longrightarrow> \<not> is_userspace_fastboot w tr \<Longrightarrow>
     FlashTask_flash w t p tr = Aborted (Die dynamic_flash_message) tr"
  by (simp add: FlashTask_flash_def)

lemma FlashTask_flash_issues:
  "\<not> should_flash_in_userspace w tr p \<or> is_userspace_fastboot w tr \<Longrightarrow>
     FlashTask_flash w t p tr =
       Completed (tr @ [DoFlash p (flash_fname t) (flash_apply_vbmeta t)])"
  by (auto simp: FlashTask_flash_def)

lemma for_each_resize:
  "\<exists>evs. for_each_partition (resize_partition w t) ps tr = Completed (tr @ evs)
     \<and> (\<forall>i < length evs. \<exists>p \<in> set ps.
           evs ! i = ResizePartition p (resize_size t) \<and> is_logical w (tr @ take i evs) p)"
proof (induction ps arbitrary: tr)
  case Nil
  then show ?case by simp
next
  case (Cons p ps)
  show ?case
  proof (cases "is_logical w tr p")
    case False
    from Cons.IH [of tr] obtain evs where
      run: "for_each_partition (resize_partition w t) ps tr = Completed (tr @ evs)"
      and ev: "\<forall>i < length evs. \<exists>q \<in> set ps.
                 evs ! i = ResizePartition q (resize_size t) \<and> is_logical w (tr @ take i evs) q"
      by blast
    from False run have "for_each_partition (resize_partition w t) (p # ps) tr = Completed (tr @ evs)"
      by (simp add: resize_partition_def)
    moreover from ev have "\<forall>i < length evs. \<exists>q \<in> set (p # ps).
                 evs ! i = ResizePartition q (resize_size t) \<and> is_logical w (tr @ take i evs) q"
      by auto
    ultimately show ?thesis by blast
  next
    case True
    let ?e = "ResizePartition p (resize_size t)"
    from Cons.IH [of "tr @ [?e]"] obtain evs where
      run: "for_each_partition (resize_partition w t) ps (tr @ [?e]) = Completed ((tr @ [?e]) @ evs)"
      and ev: "\<forall>i < length evs. \<exists>q \<in> set ps.
                 evs ! i = ResizePartition q (resize_size t)
                 \<and> is_logical w ((tr @ [?e]) @ take i evs) q"
      by blast
    from True run have r: "for_each_partition (resize_partition w t) (p # ps) tr
        = Completed (tr @ (?e # evs))"
      by (simp add: resize_partition_def)
    have "\<exists>q \<in> set (p # ps). (?e # evs) ! i = ResizePartition q (resize_size t)
            \<and> is_logical w (tr @ take i (?e # evs)) q" if "i < length (?e # evs)" for i
    proof (cases i)
      case 0
      with True show ?thesis by simp
    next
      case (Suc j)
      with that have "j < length evs" by simp
      with ev obtain q where "q \<in> set ps" "evs ! j = ResizePartition q (resize_size t)"
        "is_logical w ((tr @ [?e]) @ take j evs) q" by blast
      with Suc show ?thesis by auto
    qed
    with r show ?thesis by blast
  qed
qed

lemma for_each_resize_exact:
  "for_each_partition (resize_partition w t) ps tr =
     Completed (expected_resizes w (resize_size t) ps tr)"
  by (induction ps arbitrary: tr) (simp_all add: resize_partition_def)

lemma expected_resizes_stable:
  "(\<forall>h. \<forall>p \<in> set ps. is_logical w h p = logical p) \<Longrightarrow>
     expected_resizes w sz ps tr = tr @ map (\<lambda>p. ResizePartition p sz) (filter logical ps)"
  by (induction ps arbitrary: tr) simp_all

lemma add_partitions_None_iff:
  "add_partitions H w fp es h = None \<longleftrightarrow>
     (\<exists>pre e post h'. es = pre @ e # post \<and> add_partitions H w fp pre h = Some h'
        \<and> AddPartition H h' (GetPartitionName w e (current_slot fp)) (img_name (fst e))
             (optional_if_no_image (fst e)) = None)"
proof (induction es arbitrary: h)
  case Nil
  then show ?case by simp
next
  case (Cons a es)
  show ?case
  proof (cases "AddPartition H h (GetPartitionName w a (current_slot fp)) (img_name (fst a))
             (optional_if_no_image (fst a))")
    case None
    then have "add_partitions H w fp (a # es) h = None" by simp
    moreover from None have "a # es = [] @ a # es \<and> add_partitions H w fp [] h = Some h
        \<and> AddPartition H h (GetPartitionName w a (current_slot fp)) (img_name (fst a))
             (optional_if_no_image (fst a)) = None" by simp
    ultimately show ?thesis by blast
  next
    case (Some h1)
    have "(\<exists>pre e post h'. a # es = pre @ e # post \<and> add_partitions H w fp pre h = Some h'
        \<and> AddPartition H h' (GetPartitionName w e (current_slot fp)) (img_name (fst e))
             (optional_if_no_image (fst e)) = None)
      \<longleftrightarrow> (\<exists>pre e post h'. es = pre @ e # post \<and> add_partitions H w fp pre h1 = Some h'
        \<and> AddPartition H h' (GetPartitionName w e (current_slot fp)) (img_name (fst e))
             (optional_if_no_image (fst e)) = None)" (is "?L \<longleftrightarrow> ?R")
    proof
      assume ?L
      then obtain pre e post h' where
        eq: "a # es = pre @ e # post" and ok: "add_partitions H w fp pre h = Some h'"
        and bad: "AddPartition H h' (GetPartitionName w e (current_slot fp)) (img_name (fst e))
             (optional_if_no_image (fst e)) = None" by blast
      show ?R
      proof (cases pre)
        case Nil
        with eq ok bad Some show ?thesis by simp
      next
        case (Cons b pre')
        with eq have "b = a" "es = pre' @ e # post" by simp_all
        moreover from Cons ok Some \<open>b = a\<close> have "add_partitions H w fp pre' h1 = Some h'" by simp
        ultimately show ?thesis using bad by blast
      qed
    next
      assume ?R
      then obtain pre e post h' where
        eq: "es = pre @ e # post" and ok: "add_partitions H w fp pre h1 = Some h'"
        and bad: "AddPartition H h' (GetPartitionName w e (current_slot fp)) (img_name (fst e))
             (optional_if_no_image (fst e)) = None" by blast
      from eq have "a # es = (a # pre) @ e # post" by simp
      moreover from ok Some have "add_partitions H w fp (a # pre) h = Some h'" by simp
      ultimately show ?L using bad by blast
    qed
    with Some Cons.IH [of h1] show ?thesis by simp
  qed
qed

subsection \<open>The claims\<close>

text \<open>
  C1. When FlashSuperLayoutTask::Initialize returns a task, the caller's image list is the
  old list without exactly the entries whose partition name, resolved against the current
  slot, the task's helper reports as covered (WillFlash); the entries that stay keep their
  order.
\<close>

theorem Initialize_removes_covered:
  assumes "Initialize H w fp os_images tr = (Some t, remaining)"
  shows "remaining =
           filter (\<lambda>entry. \<not> WillFlash H (helper t) (GetPartitionName w entry (current_slot fp)))
             os_images"
  using assms
  by (auto simp: Initialize_def Let_def erase_remove_if_filter
           split: if_splits option.splits prod.splits)

theorem Initialize_removes_covered_witness:
  "Initialize accumulator device plan [system_img, boot_img, vendor_img] []
     = (Some \<lparr>super_name = ''super'', helper = [''system_a'', ''vendor_a''], sparse_layout = 500\<rparr>,
        [boot_img])
   \<and> [boot_img] =
       filter (\<lambda>entry. \<not> WillFlash accumulator [''system_a'', ''vendor_a'']
                          (GetPartitionName device entry ''a''))
         [system_img, boot_img, vendor_img]"
proof -
  have run: "Initialize accumulator device plan [system_img, boot_img, vendor_img] []
     = (Some \<lparr>super_name = ''super'', helper = [''system_a'', ''vendor_a''], sparse_layout = 500\<rparr>,
        [boot_img])"
    by (simp add: Initialize_def device_def plan_def images_def accumulator_def
          system_img_def boot_img_def vendor_img_def)
  from Initialize_removes_covered [OF run] run show ?thesis
    by (simp add: plan_def)
qed

text \<open>
  C2. FlashTask::Run on a dynamic partition while the device is in the bootloader. The
  task holds a slot, a partition name, a file name and the vbmeta flag, and nothing that
  carries an override, so the run aborts with the remediation message (whose last words
  are "use --force") before any flash command, whatever the caller asked for.
\<close>

theorem FlashTask_Run_dynamic_in_bootloader:
  "FlashTask_Run device \<lparr>flash_pname = ''system'', flash_fname = ''system.img'',
       flash_slot = '''', flash_apply_vbmeta = False\<rparr> []
     = Aborted (Die dynamic_flash_message) []"
  by (simp add: FlashTask_Run_def do_for_partitions_def FlashTask_flash_def device_def)

text \<open>
  C3. FlashSuperLayoutTask::Initialize returns no task and leaves the caller's image list
  as it was when the device has no A/B support, when the requested slot is "all", when
  super_empty.img cannot be opened, or when the device does not report the size of the
  super partition (whose name defaults to "super").
\<close>

theorem Initialize_ineligible:
  assumes "\<not> supports_AB w tr
           \<or> slot fp = ''all''
           \<or> OpenFile (source fp) ''super_empty.img'' < 0
           \<or> GetVar w tr (''partition-size:'' @ (case GetVar w tr ''super-partition-name'' of
                                                   None \<Rightarrow> ''super'' | Some v \<Rightarrow> v)) = None"
  shows "Initialize H w fp os_images tr = (None, os_images)"
  using assms
  by (auto simp: Initialize_def Let_def split: option.splits)

theorem Initialize_ineligible_witness:
  "Initialize accumulator (device\<lparr>supports_AB := \<lambda>tr. False\<rparr>) plan
       [system_img, boot_img, vendor_img] [] = (None, [system_img, boot_img, vendor_img])
   \<and> Initialize accumulator device (plan\<lparr>slot := ''all''\<rparr>)
       [system_img, boot_img, vendor_img] [] = (None, [system_img, boot_img, vendor_img])
   \<and> Initialize accumulator device (plan\<lparr>source := \<lparr>OpenFile = (\<lambda>name. -1)\<rparr>\<rparr>)
       [system_img, boot_img, vendor_img] [] = (None, [system_img, boot_img, vendor_img])
   \<and> Initialize accumulator (device\<lparr>GetVar := \<lambda>tr key. None\<rparr>) plan
       [system_img, boot_img, vendor_img] [] = (None, [system_img, boot_img, vendor_img])"
proof -
  have a: "\<not> supports_AB (device\<lparr>supports_AB := \<lambda>tr. False\<rparr>) []" by simp
  have b: "slot (plan\<lparr>slot := ''all''\<rparr>) = ''all''" by simp
  have c: "OpenFile (source (plan\<lparr>source := \<lparr>OpenFile = (\<lambda>name. -1)\<rparr>\<rparr>)) ''super_empty.img'' < 0"
    by simp
  have d: "GetVar (device\<lparr>GetVar := \<lambda>tr key. None\<rparr>) []
      (''partition-size:'' @ (case GetVar (device\<lparr>GetVar := \<lambda>tr key. None\<rparr>) []
           ''super-partition-name'' of None \<Rightarrow> ''super'' | Some v \<Rightarrow> v)) = None"
    by simp
  show ?thesis
    using Initialize_ineligible [OF disjI1, OF a]
          Initialize_ineligible [OF disjI2, OF disjI1, OF b]
          Initialize_ineligible [OF disjI2, OF disjI2, OF disjI1, OF c]
          Initialize_ineligible [OF disjI2, OF disjI2, OF disjI2, OF d]
    by blast
qed

text \<open>
  C4. FlashSuperLayoutTask::Run, for a transport whose maximum single-transfer payload is
  \<open>max_payload\<close>: a layout over that size is split, every chunk is at or under the
  payload, and the chunks are transferred to the task's super partition name in the order
  the split produced them; any other layout is transferred unsplit as the only chunk.
\<close>

theorem FlashSuperLayoutTask_Run_chunks:
  assumes "limit_within_payload w tr max_payload (sparse_file_len w (sparse_layout t) False False)"
  shows "(sparse_file_len w (sparse_layout t) False False > max_payload
            \<longrightarrow> chunks_within w (sparse_layout t)
                  (get_sparse_limit w tr (sparse_file_len w (sparse_layout t) False False))
            \<longrightarrow> (\<exists>chunks.
                  chunks = resparse_file w (sparse_layout t)
                             (get_sparse_limit w tr (sparse_file_len w (sparse_layout t) False False))
                  \<and> (\<forall>c \<in> set chunks. sparse_file_len w c True False \<le> max_payload)
                  \<and> FlashSuperLayoutTask_Run w t tr =
                      Completed (tr @ map (FlashPartition (super_name t)) chunks)))
         \<and> (\<not> sparse_file_len w (sparse_layout t) False False > max_payload
            \<longrightarrow> FlashSuperLayoutTask_Run w t tr =
                  Completed (tr @ [FlashPartition (super_name t) (sparse_layout t)]))"
proof (intro conjI impI)
  let ?len = "sparse_file_len w (sparse_layout t) False False"
  let ?limit = "get_sparse_limit w tr ?len"
  assume over: "?len > max_payload" and within: "chunks_within w (sparse_layout t) ?limit"
  from assms over have limit: "0 < ?limit" "?limit \<le> max_payload"
    by (simp_all add: limit_within_payload_def Let_def)
  from within limit(2)
  have "\<forall>c \<in> set (resparse_file w (sparse_layout t) ?limit).
          sparse_file_len w c True False \<le> max_payload"
    by (fastforce simp: chunks_within_def)
  moreover from limit(1)
  have "FlashSuperLayoutTask_Run w t tr =
          Completed (tr @ map (FlashPartition (super_name t))
                            (resparse_file w (sparse_layout t) ?limit))"
    by (simp add: FlashSuperLayoutTask_Run_def flash_partition_files_def Let_def)
  ultimately show "\<exists>chunks.
      chunks = resparse_file w (sparse_layout t) ?limit
      \<and> (\<forall>c \<in> set chunks. sparse_file_len w c True False \<le> max_payload)
      \<and> FlashSuperLayoutTask_Run w t tr =
          Completed (tr @ map (FlashPartition (super_name t)) chunks)"
    by blast
next
  assume "\<not> sparse_file_len w (sparse_layout t) False False > max_payload"
  with assms have "get_sparse_limit w tr (sparse_file_len w (sparse_layout t) False False) = 0"
    by (simp add: limit_within_payload_def Let_def)
  then show "FlashSuperLayoutTask_Run w t tr =
      Completed (tr @ [FlashPartition (super_name t) (sparse_layout t)])"
    by (simp add: FlashSuperLayoutTask_Run_def flash_partition_files_def Let_def)
qed

theorem FlashSuperLayoutTask_Run_chunks_witness:
  "limit_within_payload device [] 100 250
   \<and> chunks_within device 250 100
   \<and> FlashSuperLayoutTask_Run device
        \<lparr>super_name = ''super'', helper = [''system_a''], sparse_layout = 250\<rparr> []
       = Completed [FlashPartition ''super'' 100, FlashPartition ''super'' 100,
                    FlashPartition ''super'' 50]
   \<and> limit_within_payload device [] 100 80
   \<and> FlashSuperLayoutTask_Run device
        \<lparr>super_name = ''super'', helper = [''system_a''], sparse_layout = 80\<rparr> []
       = Completed [FlashPartition ''super'' 80]"
proof -
  let ?big = "\<lparr>super_name = ''super'', helper = [''system_a''], sparse_layout = 250::nat\<rparr>"
  let ?small = "\<lparr>super_name = ''super'', helper = [''system_a''], sparse_layout = 80::nat\<rparr>"
  have len: "sparse_file_len device s sparse crc = int s" for s sparse crc
    by (simp add: device_def)
  have lim: "get_sparse_limit device [] 250 = 100" "get_sparse_limit device [] 80 = 0"
    by (simp_all add: device_def)
  have split: "resparse_file device 250 100 = [100, 100, 50]"
    by (simp add: device_def numeral_2_eq_2)
  have l1: "limit_within_payload device [] 100 250"
    by (simp add: limit_within_payload_def lim)
  have c1: "chunks_within device 250 100"
    by (simp add: chunks_within_def split len)
  have l2: "limit_within_payload device [] 100 80"
    by (simp add: limit_within_payload_def lim)
  have big: "FlashSuperLayoutTask_Run device ?big []
       = Completed [FlashPartition ''super'' 100, FlashPartition ''super'' 100,
                    FlashPartition ''super'' 50]"
    using FlashSuperLayoutTask_Run_chunks [of device "[]" 100 ?big] l1 c1
    by (simp add: len lim split)
  have small: "FlashSuperLayoutTask_Run device ?small [] = Completed [FlashPartition ''super'' 80]"
    using FlashSuperLayoutTask_Run_chunks [of device "[]" 100 ?small] l2
    by (simp add: len lim)
  from l1 c1 big l2 small show ?thesis by blast
qed

text \<open>
  C5. RebootTask::Run dispatches on the target: "bootloader" and "recovery" issue one
  reboot-to with that target and then one wait-for-disconnect, the empty target one
  normal reboot and then one wait-for-disconnect; "userspace" and "fastboot" move the
  device to userspace fastboot and wait only when it is not there already; every other
  target is a usage error that aborts, with no command issued.
\<close>

theorem RebootTask_Run_dispatch:
  "(reboot_target t = ''bootloader'' \<longrightarrow>
      RebootTask_Run w t tr = Completed (tr @ [RebootTo ''bootloader'', WaitForDisconnect]))
   \<and> (reboot_target t = ''recovery'' \<longrightarrow>
      RebootTask_Run w t tr = Completed (tr @ [RebootTo ''recovery'', WaitForDisconnect]))
   \<and> (reboot_target t = '''' \<longrightarrow>
      RebootTask_Run w t tr = Completed (tr @ [Reboot, WaitForDisconnect]))
   \<and> (reboot_target t = ''userspace'' \<or> reboot_target t = ''fastboot'' \<longrightarrow>
      RebootTask_Run w t tr =
        (if is_userspace_fastboot w tr then Completed tr
         else Completed (tr @ [RebootToUserspaceFastboot, WaitForDisconnect])))
   \<and> (reboot_target t \<notin> {''userspace'', ''fastboot'', ''recovery'', ''bootloader'', ''''} \<longrightarrow>
      RebootTask_Run w t tr =
        Aborted (SyntaxError (''unknown reboot target '' @ reboot_target t)) tr)"
  by (simp add: RebootTask_Run_def)

theorem RebootTask_Run_dispatch_witness:
  "RebootTask_Run device \<lparr>reboot_target = ''bootloader''\<rparr> []
     = Completed [RebootTo ''bootloader'', WaitForDisconnect]
   \<and> RebootTask_Run device \<lparr>reboot_target = ''recovery''\<rparr> []
     = Completed [RebootTo ''recovery'', WaitForDisconnect]
   \<and> RebootTask_Run device \<lparr>reboot_target = ''''\<rparr> [] = Completed [Reboot, WaitForDisconnect]
   \<and> RebootTask_Run device \<lparr>reboot_target = ''fastboot''\<rparr> []
     = Completed [RebootToUserspaceFastboot, WaitForDisconnect]
   \<and> RebootTask_Run device \<lparr>reboot_target = ''userspace''\<rparr> [RebootToUserspaceFastboot]
     = Completed [RebootToUserspaceFastboot]
   \<and> RebootTask_Run device \<lparr>reboot_target = ''edl''\<rparr> []
     = Aborted (SyntaxError ''unknown reboot target edl'') []"
  using RebootTask_Run_dispatch [of "\<lparr>reboot_target = ''bootloader''\<rparr>" device "[]"]
        RebootTask_Run_dispatch [of "\<lparr>reboot_target = ''recovery''\<rparr>" device "[]"]
        RebootTask_Run_dispatch [of "\<lparr>reboot_target = ''''\<rparr>" device "[]"]
        RebootTask_Run_dispatch [of "\<lparr>reboot_target = ''fastboot''\<rparr>" device "[]"]
        RebootTask_Run_dispatch [of "\<lparr>reboot_target = ''userspace''\<rparr>" device "[RebootToUserspaceFastboot]"]
        RebootTask_Run_dispatch [of "\<lparr>reboot_target = ''edl''\<rparr>" device "[]"]
  by (simp add: device_def)

text \<open>
  C6. WipeTask::Run is a silent no-op when the partition-type query fails or returns an
  empty type: it issues no erase and no format command and does not abort. Otherwise it
  erases the partition and then formats it with the detected type and the plan's format
  options, and nothing else.
\<close>

theorem WipeTask_Run_noop_or_erase_format:
  "(GetVar w tr (''partition-type:'' @ wipe_pname t) = None
      \<or> GetVar w tr (''partition-type:'' @ wipe_pname t) = Some []
    \<longrightarrow> WipeTask_Run w t tr = Completed tr)
   \<and> (\<forall>ty. GetVar w tr (''partition-type:'' @ wipe_pname t) = Some ty \<and> ty \<noteq> []
    \<longrightarrow> WipeTask_Run w t tr =
          Completed (tr @ [Erase (wipe_pname t),
             FbPerformFormat (wipe_pname t) 1 ty '''' (fs_options (wipe_fp t))]))"
  by (auto simp: WipeTask_Run_def)

theorem WipeTask_Run_noop_or_erase_format_witness:
  "WipeTask_Run device \<lparr>wipe_fp = plan, wipe_pname = ''cache''\<rparr> [] = Completed []
   \<and> WipeTask_Run device \<lparr>wipe_fp = plan, wipe_pname = ''nosuch''\<rparr> [] = Completed []
   \<and> WipeTask_Run device \<lparr>wipe_fp = plan, wipe_pname = ''userdata''\<rparr> []
       = Completed [Erase ''userdata'', FbPerformFormat ''userdata'' 1 ''ext4'' '''' 0]"
  using WipeTask_Run_noop_or_erase_format [of device "[]" "\<lparr>wipe_fp = plan, wipe_pname = ''cache''\<rparr>"]
        WipeTask_Run_noop_or_erase_format [of device "[]" "\<lparr>wipe_fp = plan, wipe_pname = ''nosuch''\<rparr>"]
        WipeTask_Run_noop_or_erase_format [of device "[]" "\<lparr>wipe_fp = plan, wipe_pname = ''userdata''\<rparr>"]
  by (simp add: device_def plan_def)

text \<open>
  C7. UpdateSuperTask::Run does nothing when super_empty.img cannot be opened. Otherwise
  it reboots to userspace fastboot when the device is not there, takes the super
  partition's name from the device ("super" when the query fails), downloads the template
  under that name and sends "update-super:" with the name, followed by ":wipe" exactly
  when the plan wants a wipe.
\<close>

theorem UpdateSuperTask_Run_steps:
  "(OpenFile (source (update_fp t)) ''super_empty.img'' < 0 \<longrightarrow>
      UpdateSuperTask_Run w t tr = Completed tr)
   \<and> (\<not> OpenFile (source (update_fp t)) ''super_empty.img'' < 0 \<longrightarrow>
      (\<exists>reboot name.
         reboot = (if is_userspace_fastboot w tr then [] else [RebootToUserspaceFastboot])
         \<and> name = (case GetVar w (tr @ reboot) ''super-partition-name'' of
                     None \<Rightarrow> ''super'' | Some v \<Rightarrow> v)
         \<and> UpdateSuperTask_Run w t tr =
             Completed (tr @ reboot @
               [Download name (OpenFile (source (update_fp t)) ''super_empty.img'')
                  (get_file_size w (OpenFile (source (update_fp t)) ''super_empty.img'')),
                RawCommand (''update-super:'' @ name
                             @ (if wants_wipe (update_fp t) then '':wipe'' else ''''))
                  ''Updating super partition''])))"
  by (simp add: UpdateSuperTask_Run_def Let_def)

theorem UpdateSuperTask_Run_steps_witness:
  "UpdateSuperTask_Run device \<lparr>update_fp = plan\<lparr>source := \<lparr>OpenFile = (\<lambda>name. -1)\<rparr>\<rparr>\<rparr> []
     = Completed []
   \<and> UpdateSuperTask_Run device \<lparr>update_fp = plan\<rparr> []
     = Completed [RebootToUserspaceFastboot, Download ''super'' 3 4096,
         RawCommand ''update-super:super'' ''Updating super partition'']
   \<and> UpdateSuperTask_Run (device\<lparr>GetVar := \<lambda>tr key. None\<rparr>)
        \<lparr>update_fp = plan\<lparr>wants_wipe := True\<rparr>\<rparr> [RebootToUserspaceFastboot]
     = Completed [RebootToUserspaceFastboot, Download ''super'' 3 4096,
         RawCommand ''update-super:super:wipe'' ''Updating super partition'']"
  using UpdateSuperTask_Run_steps [of "\<lparr>update_fp = plan\<lparr>source := \<lparr>OpenFile = (\<lambda>name. -1)\<rparr>\<rparr>\<rparr>" device "[]"]
        UpdateSuperTask_Run_steps [of "\<lparr>update_fp = plan\<rparr>" device "[]"]
        UpdateSuperTask_Run_steps [of "\<lparr>update_fp = plan\<lparr>wants_wipe := True\<rparr>\<rparr>"
           "device\<lparr>GetVar := \<lambda>tr key. None\<rparr>" "[RebootToUserspaceFastboot]"]
  by (simp add: device_def plan_def images_def)

text \<open>
  C8. The callback of ResizeTask::Run leaves a partition that is not logical alone and
  completes; it issues one resize command for a logical one. The whole run completes and
  issues exactly the expected resizes: going through the resolved partitions in order, one
  resize with the task's size for each partition that is logical at its turn, nothing for
  the others. When the answers of is_logical for the resolved partitions do not change,
  that is one resize for each logical resolved partition, in the resolver's order. Hence
  every command of the run is a resize of a resolved partition that was logical when the
  command was issued.
\<close>

theorem ResizeTask_Run_only_logical:
  "(\<forall>p. \<not> is_logical w tr p \<longrightarrow> resize_partition w t p tr = Completed tr)
   \<and> (\<forall>p. is_logical w tr p \<longrightarrow>
         resize_partition w t p tr = Completed (tr @ [ResizePartition p (resize_size t)]))
   \<and> ResizeTask_Run w t tr =
       Completed (expected_resizes w (resize_size t)
                    (partitions_for w tr (resize_pname t) (resize_slot t) False) tr)
   \<and> ((\<forall>h. \<forall>p \<in> set (partitions_for w tr (resize_pname t) (resize_slot t) False).
          is_logical w h p = is_logical w tr p)
       \<longrightarrow> ResizeTask_Run w t tr =
             Completed (tr @ map (\<lambda>p. ResizePartition p (resize_size t))
                              (filter (is_logical w tr)
                                 (partitions_for w tr (resize_pname t) (resize_slot t) False))))
   \<and> (\<exists>evs. ResizeTask_Run w t tr = Completed (tr @ evs)
         \<and> (\<forall>i < length evs.
               \<exists>p \<in> set (partitions_for w tr (resize_pname t) (resize_slot t) False).
                 evs ! i = ResizePartition p (resize_size t)
                 \<and> is_logical w (tr @ take i evs) p))"
proof (intro conjI)
  let ?ps = "partitions_for w tr (resize_pname t) (resize_slot t) False"
  show "\<forall>p. \<not> is_logical w tr p \<longrightarrow> resize_partition w t p tr = Completed tr"
    by (simp add: resize_partition_def)
  show "\<forall>p. is_logical w tr p \<longrightarrow>
         resize_partition w t p tr = Completed (tr @ [ResizePartition p (resize_size t)])"
    by (simp add: resize_partition_def)
  show exact: "ResizeTask_Run w t tr = Completed (expected_resizes w (resize_size t) ?ps tr)"
    by (simp add: ResizeTask_Run_def do_for_partitions_def for_each_resize_exact)
  show "(\<forall>h. \<forall>p \<in> set ?ps. is_logical w h p = is_logical w tr p)
       \<longrightarrow> ResizeTask_Run w t tr =
             Completed (tr @ map (\<lambda>p. ResizePartition p (resize_size t))
                              (filter (is_logical w tr) ?ps))"
  proof
    assume "\<forall>h. \<forall>p \<in> set ?ps. is_logical w h p = is_logical w tr p"
    then have "expected_resizes w (resize_size t) ?ps tr =
        tr @ map (\<lambda>p. ResizePartition p (resize_size t)) (filter (is_logical w tr) ?ps)"
      by (rule expected_resizes_stable)
    with exact show "ResizeTask_Run w t tr =
             Completed (tr @ map (\<lambda>p. ResizePartition p (resize_size t))
                              (filter (is_logical w tr) ?ps))"
      by simp
  qed
  show "\<exists>evs. ResizeTask_Run w t tr = Completed (tr @ evs)
         \<and> (\<forall>i < length evs. \<exists>p \<in> set ?ps.
                 evs ! i = ResizePartition p (resize_size t)
                 \<and> is_logical w (tr @ take i evs) p)"
    using for_each_resize [of w t ?ps tr]
    by (simp add: ResizeTask_Run_def do_for_partitions_def)
qed

theorem ResizeTask_Run_only_logical_witness:
  "\<not> is_logical device [] ''system_b''
   \<and> resize_partition device \<lparr>resize_fp = plan, resize_pname = ''system'', resize_size = ''4096'',
         resize_slot = ''all''\<rparr> ''system_b'' [] = Completed []
   \<and> is_logical device [] ''system_a''
   \<and> resize_partition device \<lparr>resize_fp = plan, resize_pname = ''system'', resize_size = ''4096'',
         resize_slot = ''all''\<rparr> ''system_a'' [] = Completed [ResizePartition ''system_a'' ''4096'']
   \<and> partitions_for device [] ''system'' ''all'' False = [''system_a'', ''system_b'']
   \<and> ResizeTask_Run device \<lparr>resize_fp = plan, resize_pname = ''system'',
         resize_size = ''4096'', resize_slot = ''all''\<rparr> []
       = Completed [ResizePartition ''system_a'' ''4096'']
   \<and> ResizeTask_Run device \<lparr>resize_fp = plan, resize_pname = ''boot'',
         resize_size = ''4096'', resize_slot = ''all''\<rparr> [] = Completed []"
proof -
  let ?t = "\<lparr>resize_fp = plan, resize_pname = ''system'', resize_size = ''4096'',
              resize_slot = ''all''\<rparr>"
  let ?u = "\<lparr>resize_fp = plan, resize_pname = ''boot'', resize_size = ''4096'',
              resize_slot = ''all''\<rparr>"
  note run = ResizeTask_Run_only_logical [of device "[]" ?t]
  note run_boot = ResizeTask_Run_only_logical [of device "[]" ?u]
  have b: "\<not> is_logical device [] ''system_b''"
    by (simp add: device_def)
  have a: "is_logical device [] ''system_a''"
    by (simp add: device_def)
  have ps: "partitions_for device [] ''system'' ''all'' False = [''system_a'', ''system_b'']"
    by (simp add: device_def)
  have ps_boot: "partitions_for device [] ''boot'' ''all'' False = [''boot_a'', ''boot_b'']"
    by (simp add: device_def)
  have stable: "\<forall>h. \<forall>p \<in> set (partitions_for device [] (resize_pname ?t) (resize_slot ?t) False).
      is_logical device h p = is_logical device [] p"
    by (simp add: device_def)
  have stable_boot: "\<forall>h. \<forall>p \<in> set (partitions_for device [] (resize_pname ?u) (resize_slot ?u) False).
      is_logical device h p = is_logical device [] p"
    by (simp add: device_def)
  have not_boot: "\<not> is_logical device [] ''boot_a''" "\<not> is_logical device [] ''boot_b''"
    by (simp_all add: device_def)
  from run [THEN conjunct1, rule_format, OF b]
  have skip: "resize_partition device ?t ''system_b'' [] = Completed []" .
  from run [THEN conjunct2, THEN conjunct1, rule_format, OF a]
  have issue: "resize_partition device ?t ''system_a'' []
      = Completed [ResizePartition ''system_a'' ''4096'']"
    by simp
  from run [THEN conjunct2, THEN conjunct2, THEN conjunct2, THEN conjunct1, THEN mp, OF stable]
  have whole: "ResizeTask_Run device ?t [] = Completed [ResizePartition ''system_a'' ''4096'']"
    by (simp add: ps a b)
  from run_boot [THEN conjunct2, THEN conjunct2, THEN conjunct2, THEN conjunct1, THEN mp,
      OF stable_boot]
  have none: "ResizeTask_Run device ?u [] = Completed []"
    by (simp add: ps_boot not_boot)
  from b skip a issue ps whole none show ?thesis by blast
qed

text \<open>
  C9. Whenever FlashSuperLayoutTask::Initialize returns no task, the caller's image list is
  unchanged. Each of these returns no task: no A/B support, slot "all", no template, a
  failed super partition size query, the helper failing to open the template, one failed
  registration after any number of successful ones, and a failed layout computation.
\<close>

theorem Initialize_no_task_keeps_images:
  "(fst (Initialize H w fp os_images tr) = None
      \<longrightarrow> snd (Initialize H w fp os_images tr) = os_images)
   \<and> (\<not> supports_AB w tr
       \<or> slot fp = ''all''
       \<or> OpenFile (source fp) ''super_empty.img'' < 0
       \<or> GetVar w tr (''partition-size:'' @ (case GetVar w tr ''super-partition-name'' of
                                               None \<Rightarrow> ''super'' | Some v \<Rightarrow> v)) = None
       \<or> Open H (make_helper H (source fp)) (OpenFile (source fp) ''super_empty.img'') = None
       \<or> (\<exists>h1 pre entry post h'.
             Open H (make_helper H (source fp)) (OpenFile (source fp) ''super_empty.img'') = Some h1
             \<and> os_images = pre @ entry # post
             \<and> add_partitions H w fp pre h1 = Some h'
             \<and> AddPartition H h' (GetPartitionName w entry (current_slot fp))
                  (img_name (fst entry)) (optional_if_no_image (fst entry)) = None)
       \<or> (\<exists>h1 h2.
             Open H (make_helper H (source fp)) (OpenFile (source fp) ''super_empty.img'') = Some h1
             \<and> add_partitions H w fp os_images h1 = Some h2
             \<and> GetSparseLayout H h2 = None)
      \<longrightarrow> Initialize H w fp os_images tr = (None, os_images))"
proof (intro conjI impI)
  assume "fst (Initialize H w fp os_images tr) = None"
  then show "snd (Initialize H w fp os_images tr) = os_images"
    by (auto simp: Initialize_def Let_def split: if_splits option.splits prod.splits)
next
  assume cause: "\<not> supports_AB w tr
       \<or> slot fp = ''all''
       \<or> OpenFile (source fp) ''super_empty.img'' < 0
       \<or> GetVar w tr (''partition-size:'' @ (case GetVar w tr ''super-partition-name'' of
                                               None \<Rightarrow> ''super'' | Some v \<Rightarrow> v)) = None
       \<or> Open H (make_helper H (source fp)) (OpenFile (source fp) ''super_empty.img'') = None
       \<or> (\<exists>h1 pre entry post h'.
             Open H (make_helper H (source fp)) (OpenFile (source fp) ''super_empty.img'') = Some h1
             \<and> os_images = pre @ entry # post
             \<and> add_partitions H w fp pre h1 = Some h'
             \<and> AddPartition H h' (GetPartitionName w entry (current_slot fp))
                  (img_name (fst entry)) (optional_if_no_image (fst entry)) = None)
       \<or> (\<exists>h1 h2.
             Open H (make_helper H (source fp)) (OpenFile (source fp) ''super_empty.img'') = Some h1
             \<and> add_partitions H w fp os_images h1 = Some h2
             \<and> GetSparseLayout H h2 = None)"
  have reg: "add_partitions H w fp os_images h1 = None"
    if "os_images = pre @ entry # post" "add_partitions H w fp pre h1 = Some h'"
       "AddPartition H h' (GetPartitionName w entry (current_slot fp))
                  (img_name (fst entry)) (optional_if_no_image (fst entry)) = None"
    for h1 pre entry post h'
    unfolding add_partitions_None_iff using that by blast
  from cause reg have "\<not> supports_AB w tr
       \<or> slot fp = ''all''
       \<or> OpenFile (source fp) ''super_empty.img'' < 0
       \<or> GetVar w tr (''partition-size:'' @ (case GetVar w tr ''super-partition-name'' of
                                               None \<Rightarrow> ''super'' | Some v \<Rightarrow> v)) = None
       \<or> Open H (make_helper H (source fp)) (OpenFile (source fp) ''super_empty.img'') = None
       \<or> (\<exists>h1.
             Open H (make_helper H (source fp)) (OpenFile (source fp) ''super_empty.img'') = Some h1
             \<and> add_partitions H w fp os_images h1 = None)
       \<or> (\<exists>h1 h2.
             Open H (make_helper H (source fp)) (OpenFile (source fp) ''super_empty.img'') = Some h1
             \<and> add_partitions H w fp os_images h1 = Some h2
             \<and> GetSparseLayout H h2 = None)"
    by blast
  then show "Initialize H w fp os_images tr = (None, os_images)"
    by (auto simp: Initialize_def Let_def split: option.splits)
qed

theorem Initialize_no_task_keeps_images_witness:
  "fst (Initialize accumulator device plan [boot_img] []) = None
   \<and> snd (Initialize accumulator device plan [boot_img] []) = [boot_img]
   \<and> Initialize accumulator device plan [system_img, unnamed_img, boot_img] []
       = (None, [system_img, unnamed_img, boot_img])"
proof -
  note thm1 = Initialize_no_task_keeps_images [of accumulator device plan "[boot_img]" "[]"]
  note thm2 = Initialize_no_task_keeps_images
     [of accumulator device plan "[system_img, unnamed_img, boot_img]" "[]"]
  have none: "fst (Initialize accumulator device plan [boot_img] []) = None"
    by (simp add: Initialize_def device_def plan_def images_def accumulator_def boot_img_def)
  with thm1 have kept: "snd (Initialize accumulator device plan [boot_img] []) = [boot_img]"
    by blast
  have opened: "Open accumulator (make_helper accumulator (source plan))
      (OpenFile (source plan) ''super_empty.img'') = Some []"
    by (simp add: accumulator_def plan_def images_def)
  have split: "[system_img, unnamed_img, boot_img] = [system_img] @ unnamed_img # [boot_img]"
    by simp
  have before: "add_partitions accumulator device plan [system_img] [] = Some [''system_a'']"
    by (simp add: accumulator_def device_def plan_def system_img_def)
  have refused: "AddPartition accumulator [''system_a'']
      (GetPartitionName device unnamed_img (current_slot plan))
      (img_name (fst unnamed_img)) (optional_if_no_image (fst unnamed_img)) = None"
    by (simp add: accumulator_def unnamed_img_def)
  from opened split before refused
  have "\<exists>h1 pre entry post h'.
     Open accumulator (make_helper accumulator (source plan))
       (OpenFile (source plan) ''super_empty.img'') = Some h1
     \<and> [system_img, unnamed_img, boot_img] = pre @ entry # post
     \<and> add_partitions accumulator device plan pre h1 = Some h'
     \<and> AddPartition accumulator h' (GetPartitionName device entry (current_slot plan))
          (img_name (fst entry)) (optional_if_no_image (fst entry)) = None"
    by blast
  with thm2 have "Initialize accumulator device plan [system_img, unnamed_img, boot_img] []
       = (None, [system_img, unnamed_img, boot_img])"
    by blast
  with none kept show ?thesis by blast
qed

text \<open>
  C10. With target "userspace" or "fastboot" and the device already in userspace
  fastboot, RebootTask::Run completes and issues no command: no reboot, no
  wait-for-disconnect.
\<close>

theorem RebootTask_Run_already_userspace:
  assumes "reboot_target t = ''userspace'' \<or> reboot_target t = ''fastboot''"
      and "is_userspace_fastboot w tr"
  shows "RebootTask_Run w t tr = Completed tr"
  using assms by (simp add: RebootTask_Run_def)

theorem RebootTask_Run_already_userspace_witness:
  "is_userspace_fastboot device [RebootToUserspaceFastboot, WaitForDisconnect]
   \<and> RebootTask_Run device \<lparr>reboot_target = ''fastboot''\<rparr> [RebootToUserspaceFastboot, WaitForDisconnect]
       = Completed [RebootToUserspaceFastboot, WaitForDisconnect]
   \<and> RebootTask_Run device \<lparr>reboot_target = ''userspace''\<rparr> [RebootToUserspaceFastboot, WaitForDisconnect]
       = Completed [RebootToUserspaceFastboot, WaitForDisconnect]"
proof -
  have u: "is_userspace_fastboot device [RebootToUserspaceFastboot, WaitForDisconnect]"
    by (simp add: device_def)
  show ?thesis
    using u
      RebootTask_Run_already_userspace [of "\<lparr>reboot_target = ''fastboot''\<rparr>" device, OF _ u]
      RebootTask_Run_already_userspace [of "\<lparr>reboot_target = ''userspace''\<rparr>" device, OF _ u]
    by simp
qed

end
